theory Spec2Isabelle
  imports Main "HOL-Library.Multiset" "HOL-Library.Char_ord" "HOL-Library.List_Lexorder"
begin

section \<open>JavaScript values\<close>

text \<open>
  The chat route receives its conversation history from \<open>req.json()\<close>, so a raw message
  list is a JSON value.  An object is the association list of its properties, read with
  \<open>map_of\<close> (of two entries under one key the first is the property); a property read
  \<open>v[k]\<close> yields \<open>None\<close> where JavaScript yields \<open>undefined\<close>.  Strings are lists of
  code units (those below 256); numbers are never inspected by the code modelled here
  except by strict equality with an integer literal and by \<open>String\<close>, so they are
  integers.
\<close>

datatype json =
    JNull
  | JBool bool
  | JNum int
  | JStr string
  | JArr "json list"
  | JObj "(string \<times> json) list"

text \<open>\<open>typeof value === 'object' && value !== null\<close>: arrays are objects too.\<close>

fun isRecord :: "json \<Rightarrow> bool" where
  "isRecord (JObj kvs) = True"
| "isRecord (JArr xs) = True"
| "isRecord v = False"

text \<open>
  \<open>value[key]\<close> for the keys the code reads (\<open>role\<close>, \<open>parts\<close>, \<open>type\<close>, \<open>text\<close>,
  \<open>content\<close>, \<open>message\<close>, \<open>responseBody\<close>, \<open>statusCode\<close>, \<open>models\<close>, \<open>name\<close>): an
  array has none of them as a property.
\<close>

fun getProp :: "json \<Rightarrow> string \<Rightarrow> json option" where
  "getProp (JObj kvs) k = map_of kvs k"
| "getProp v k = None"

text \<open>White space as \<open>String.prototype.trim\<close> sees it, among the code units below 256.\<close>

definition isWhiteSpace :: "char \<Rightarrow> bool" where
  "isWhiteSpace c = (of_char c \<in> {9, 10, 11, 12, 13, 32, 160 :: nat})"

definition js_trim :: "string \<Rightarrow> string" where
  "js_trim s = rev (dropWhile isWhiteSpace (rev (dropWhile isWhiteSpace s)))"

definition startsWith :: "string \<Rightarrow> string \<Rightarrow> bool" where
  "startsWith s p = (take (length p) s = p)"

section \<open>Message sanitizer (\<open>src/app/api/ai/chat/route.ts\<close>)\<close>

definition isUIMessageRole :: "json option \<Rightarrow> bool" where
  "isUIMessageRole v =
     (v = Some (JStr ''user'') \<or> v = Some (JStr ''assistant'') \<or> v = Some (JStr ''system''))"

text \<open>\<open>typeof textValue === 'string' && textValue.trim().length > 0\<close>\<close>

fun nonEmptyText :: "json option \<Rightarrow> bool" where
  "nonEmptyText (Some (JStr s)) = (length (js_trim s) > 0)"
| "nonEmptyText v = False"

text \<open>\<open>typeof typeValue === 'string' ? typeValue : undefined\<close>\<close>

fun typeOfPart :: "json option \<Rightarrow> string option" where
  "typeOfPart (Some (JStr t)) = Some t"
| "typeOfPart v = None"

text \<open>The callback of \<open>parts.filter\<close>, for a message of role \<open>role\<close>.\<close>

definition keepPart :: "string \<Rightarrow> json \<Rightarrow> bool" where
  "keepPart role part =
     (if \<not> isRecord part then False
      else
        let type = typeOfPart (getProp part ''type'') in
        if type = Some ''step-start'' then False
        else if (case type of Some t \<Rightarrow> startsWith t ''tool-'' | None \<Rightarrow> False) then False
        else if role = ''assistant'' then
          type = Some ''text'' \<and> nonEmptyText (getProp part ''text'')
        else if role = ''user'' then
          (if type = Some ''text'' then nonEmptyText (getProp part ''text'')
           else if type = Some ''file'' then True
           else True)
        else if type \<noteq> Some ''text'' then False
        else nonEmptyText (getProp part ''text''))"

text \<open>\<open>raw['content'] ?? raw['text']\<close>\<close>

definition fallbackText :: "json \<Rightarrow> json option" where
  "fallbackText raw =
     (case getProp raw ''content'' of
        None \<Rightarrow> getProp raw ''text''
      | Some JNull \<Rightarrow> getProp raw ''text''
      | Some v \<Rightarrow> Some v)"

definition uiMessage :: "string \<Rightarrow> json list \<Rightarrow> json" where
  "uiMessage role parts = JObj [(''role'', JStr role), (''parts'', JArr parts)]"

definition textPart :: "string \<Rightarrow> json" where
  "textPart t = JObj [(''type'', JStr ''text''), (''text'', JStr t)]"

text \<open>
  The message pushed from the flat legacy text field, if that field is a string that is
  not blank; \<open>None\<close> when nothing is pushed.
\<close>

definition fallbackMessage :: "string \<Rightarrow> json \<Rightarrow> json option" where
  "fallbackMessage role raw =
     (case fallbackText raw of
        Some (JStr t) \<Rightarrow>
          if length (js_trim t) > 0 then Some (uiMessage role [textPart (js_trim t)]) else None
      | _ \<Rightarrow> None)"

text \<open>
  One iteration of \<open>for (const raw of rawMessages)\<close>: the message appended to
  \<open>sanitized\<close>, or \<open>None\<close> where the iteration appends nothing.
\<close>

definition sanitizeMessage :: "json \<Rightarrow> json option" where
  "sanitizeMessage raw =
     (if \<not> isRecord raw then None
      else if \<not> isUIMessageRole (getProp raw ''role'') then None
      else
        (case getProp raw ''role'' of
           Some (JStr role) \<Rightarrow>
             (case getProp raw ''parts'' of
                Some (JArr parts) \<Rightarrow>
                  (let keptParts = filter (keepPart role) parts in
                   if length keptParts = 0 then fallbackMessage role raw
                   else Some (uiMessage role keptParts))
              | _ \<Rightarrow> fallbackMessage role raw)
         | _ \<Rightarrow> None))"

fun sanitizeEach :: "json list \<Rightarrow> json list" where
  "sanitizeEach [] = []"
| "sanitizeEach (raw # rest) =
     (case sanitizeMessage raw of
        None \<Rightarrow> sanitizeEach rest
      | Some m \<Rightarrow> m # sanitizeEach rest)"

text \<open>
  \<open>while (sanitized.length > 0 && sanitized[sanitized.length - 1]?.role !== 'user')
  sanitized.pop()\<close>
\<close>

function dropTrailingNonUser :: "json list \<Rightarrow> json list" where
  "dropTrailingNonUser sanitized =
     (if length sanitized > 0 \<and> getProp (last sanitized) ''role'' \<noteq> Some (JStr ''user'')
      then dropTrailingNonUser (butlast sanitized)
      else sanitized)"
  by pat_completeness auto
termination
  by (relation "measure length") auto

definition sanitizeMessagesForModel :: "json \<Rightarrow> json list" where
  "sanitizeMessagesForModel rawMessages =
     (case rawMessages of
        JArr raws \<Rightarrow> dropTrailingNonUser (sanitizeEach raws)
      | _ \<Rightarrow> [])"

section \<open>Secret codec (\<open>src/lib/ai/secrets.ts\<close>)\<close>

datatype error =
    AuthError
  | MissingEncryptionKey
  | InvalidPayload
  | CipherError
  | ZodError
  | QueryError
  | SaveFailed
  | FetchError
  | TypeError

text \<open>
  The primitives of \<open>node:crypto\<close> and \<open>Buffer\<close> that the codec calls are parameters:
  \<^item> \<open>sha256 raw\<close> is \<open>createHash('sha256').update(raw, 'utf8').digest()\<close>;
  \<^item> \<open>gcmEncrypt key iv plaintext\<close> is the ciphertext and the authentication tag that
    \<open>createCipheriv('aes-256-gcm', key, iv)\<close> gives for the UTF-8 bytes of \<open>plaintext\<close>;
  \<^item> \<open>gcmDecrypt key iv tag ciphertext\<close> is what \<open>createDecipheriv\<close>, \<open>setAuthTag\<close>,
    \<open>update\<close>, \<open>final\<close> and \<open>toString('utf8')\<close> give: the plaintext, or the error thrown;
  \<^item> \<open>toBase64\<close> and \<open>fromBase64\<close> are \<open>buf.toString('base64')\<close> and
    \<open>Buffer.from(s, 'base64')\<close>.
\<close>

record crypto =
  sha256 :: "string \<Rightarrow> string"
  gcmEncrypt :: "string \<Rightarrow> string \<Rightarrow> string \<Rightarrow> string \<times> string"
  gcmDecrypt :: "string \<Rightarrow> string \<Rightarrow> string \<Rightarrow> string \<Rightarrow> error + string"
  toBase64 :: "string \<Rightarrow> string"
  fromBase64 :: "string \<Rightarrow> string"

text \<open>
  What a call reads from its surroundings: the outcome of \<open>getUserId()\<close>, the variable
  \<open>process.env.ENCRYPTION_KEY\<close>, the twelve bytes \<open>crypto.randomBytes(12)\<close> returns, the
  identifier \<open>crypto.randomUUID()\<close> returns and the clock \<open>new Date()\<close>.
\<close>

record env =
  getUserId :: "error + string"
  ENCRYPTION_KEY :: "string option"
  randomBytes12 :: string
  randomUUID :: string
  now :: nat

definition getKey :: "crypto \<Rightarrow> env \<Rightarrow> error + string" where
  "getKey c e =
     (case ENCRYPTION_KEY e of
        None \<Rightarrow> Inl MissingEncryptionKey
      | Some raw \<Rightarrow> if raw = [] then Inl MissingEncryptionKey else Inr (sha256 c raw))"

definition encryptSecret :: "crypto \<Rightarrow> env \<Rightarrow> string \<Rightarrow> error + string" where
  "encryptSecret c e plaintext =
     (case getKey c e of
        Inl err \<Rightarrow> Inl err
      | Inr key \<Rightarrow>
          let iv = randomBytes12 e;
              (ciphertext, tag) = gcmEncrypt c key iv plaintext
          in Inr (toBase64 c iv @ ''.'' @ toBase64 c tag @ ''.'' @ toBase64 c ciphertext))"

text \<open>\<open>s.split(sep)\<close> for a separator of one code unit.\<close>

fun js_split :: "char \<Rightarrow> string \<Rightarrow> string list" where
  "js_split sep [] = [[]]"
| "js_split sep (ch # rest) =
     (if ch = sep then [] # js_split sep rest
      else (case js_split sep rest of
              [] \<Rightarrow> [[ch]]
            | seg # segs \<Rightarrow> (ch # seg) # segs))"

text \<open>
  An element bound by array destructuring: \<open>None\<close> is \<open>undefined\<close>.  \<open>falsy\<close> is \<open>!x\<close>
  for such a string.
\<close>

definition element :: "'a list \<Rightarrow> nat \<Rightarrow> 'a option" where
  "element xs i = (if i < length xs then Some (xs ! i) else None)"

fun falsy :: "string option \<Rightarrow> bool" where
  "falsy None = True"
| "falsy (Some s) = (s = [])"

definition decryptSecret :: "crypto \<Rightarrow> env \<Rightarrow> string \<Rightarrow> error + string" where
  "decryptSecret c e payload =
     (case getKey c e of
        Inl err \<Rightarrow> Inl err
      | Inr key \<Rightarrow>
          let segments = js_split (CHR ''.'') payload;
              ivB64 = element segments 0;
              tagB64 = element segments 1;
              ciphertextB64 = element segments 2
          in if falsy ivB64 \<or> falsy tagB64 \<or> falsy ciphertextB64 then Inl InvalidPayload
             else gcmDecrypt c key (fromBase64 c (the ivB64)) (fromBase64 c (the tagB64))
                    (fromBase64 c (the ciphertextB64)))"

section \<open>Provider settings store (\<open>src/server/ai-settings.ts\<close>)\<close>

text \<open>
  \<open>AiSettingsRow\<close> is what the \<open>SELECT\<close> returns; a row of the table
  \<open>"public"."AiSettings"\<close> has four columns more.  The table is the list of its rows,
  unique on \<open>authUserId\<close> and on \<open>id\<close>; the database is \<open>None\<close> while the table has not
  been created, and every statement on it is rejected then.
\<close>

record AiSettingsRow =
  preferredProvider :: string
  geminiModel :: string
  geminiApiKeyEncrypted :: "string option"
  ollamaHostUrl :: "string option"
  ollamaModel :: "string option"

record AiSettings = AiSettingsRow +
  id' :: string
  authUserId :: string
  createdAt :: nat
  updatedAt :: nat

type_synonym database = "AiSettings list option"

text \<open>The input of \<open>upsertAiSettingsAction\<close>: an optional field is \<open>None\<close> when absent.\<close>

record upsertInput =
  in_preferredProvider :: string
  in_geminiApiKey :: "string option"
  in_geminiModel :: "string option"
  in_ollamaHostUrl :: "string option"
  in_ollamaModel :: "string option"

text \<open>\<open>upsertSchema.parse(input)\<close>: the input itself, or a \<open>ZodError\<close>.\<close>

definition upsertSchema_parse :: "upsertInput \<Rightarrow> error + upsertInput" where
  "upsertSchema_parse input =
     (if in_preferredProvider input \<notin> {''openai'', ''gemini'', ''ollama''} then Inl ZodError
      else if (case in_geminiModel input of
                 None \<Rightarrow> False
               | Some m \<Rightarrow> m \<notin> {''gemini-flash-latest'', ''gemini-2.5-pro'', ''gemini-3.0-pro''})
      then Inl ZodError
      else Inr input)"

definition endsWithSlash :: "string \<Rightarrow> bool" where
  "endsWithSlash s = (s \<noteq> [] \<and> last s = CHR ''/'')"

definition normalizeHostUrl :: "string \<Rightarrow> string" where
  "normalizeHostUrl url =
     (let trimmed = js_trim url in
      if trimmed = [] then []
      else if endsWithSlash trimmed then butlast trimmed else trimmed)"

text \<open>The \<open>SELECT ... WHERE "authUserId" = ... LIMIT 1\<close> of both settings readers.\<close>

definition selectAiSettings :: "database \<Rightarrow> string \<Rightarrow> error + AiSettings option" where
  "selectAiSettings db uid =
     (case db of
        None \<Rightarrow> Inl QueryError
      | Some rows \<Rightarrow> Inr (find (\<lambda>r. authUserId r = uid) rows))"

text \<open>
  \<open>INSERT ... ON CONFLICT ("authUserId") DO UPDATE SET ...\<close>: a row of the user is
  updated in the six columns the statement names; otherwise the new row is appended,
  unless its \<open>id\<close> is taken.
\<close>

definition insertOrUpdate :: "database \<Rightarrow> AiSettings \<Rightarrow> error + database" where
  "insertOrUpdate db new =
     (case db of
        None \<Rightarrow> Inl QueryError
      | Some rows \<Rightarrow>
          if \<exists>r \<in> set rows. authUserId r = authUserId new then
            Inr (Some (map (\<lambda>r. if authUserId r = authUserId new
                                then r\<lparr>preferredProvider := preferredProvider new,
                                       geminiApiKeyEncrypted := geminiApiKeyEncrypted new,
                                       geminiModel := geminiModel new,
                                       ollamaHostUrl := ollamaHostUrl new,
                                       ollamaModel := ollamaModel new,
                                       updatedAt := updatedAt new\<rparr>
                                else r) rows))
          else if \<exists>r \<in> set rows. id' r = id' new then Inl QueryError
          else Inr (Some (rows @ [new])))"

text \<open>
  \<open>upsertAiSettingsAction\<close>: the database after \<open>{ success: true }\<close>, or the error
  thrown (the database is then as it was).  A value that is \<open>undefined\<close>, \<open>null\<close> or a
  string is a \<open>string option option\<close>: \<open>None\<close>, \<open>Some None\<close>, \<open>Some (Some s)\<close>.
\<close>

definition upsertAiSettingsAction ::
  "crypto \<Rightarrow> env \<Rightarrow> database \<Rightarrow> upsertInput \<Rightarrow> error + database" where
  "upsertAiSettingsAction c e db input =
     (case getUserId e of
        Inl err \<Rightarrow> Inl err
      | Inr uid \<Rightarrow>
     (case upsertSchema_parse input of
        Inl err \<Rightarrow> Inl err
      | Inr data \<Rightarrow>
     (let ollamaHostUrl' =
            (case in_ollamaHostUrl data of
               None \<Rightarrow> None
             | Some h \<Rightarrow> if h \<noteq> [] then Some (normalizeHostUrl h) else None);
          geminiModel' = (case in_geminiModel data of None \<Rightarrow> ''gemini-flash-latest'' | Some m \<Rightarrow> m);
          geminiApiKeyEncrypted' =
            (case in_geminiApiKey data of
               None \<Rightarrow> Inr None
             | Some k \<Rightarrow>
                 if js_trim k \<noteq> [] then
                   (case encryptSecret c e (js_trim k) of
                      Inl err \<Rightarrow> Inl err
                    | Inr token \<Rightarrow> Inr (Some (Some token)))
                 else Inr (Some None))
      in
      (case geminiApiKeyEncrypted' of
         Inl err \<Rightarrow> Inl err
       | Inr keyEncrypted \<Rightarrow>
      (let current = (case selectAiSettings db uid of Inl err \<Rightarrow> None | Inr row \<Rightarrow> row);
           nextGeminiApiKeyEncrypted =
             (case keyEncrypted of
                None \<Rightarrow> (case current of None \<Rightarrow> None | Some r \<Rightarrow> geminiApiKeyEncrypted r)
              | Some k \<Rightarrow> k);
           nextOllamaHostUrl =
             (case ollamaHostUrl' of
                None \<Rightarrow> (case current of None \<Rightarrow> None | Some r \<Rightarrow> ollamaHostUrl r)
              | Some h \<Rightarrow> if h \<noteq> [] then Some h else None);
           nextOllamaModel =
             (case in_ollamaModel data of
                None \<Rightarrow> (case current of None \<Rightarrow> None | Some r \<Rightarrow> ollamaModel r)
              | Some m \<Rightarrow> if js_trim m \<noteq> [] then Some (js_trim m) else None)
       in
       (case insertOrUpdate db
               \<lparr>preferredProvider = in_preferredProvider data,
                geminiModel = geminiModel',
                geminiApiKeyEncrypted = nextGeminiApiKeyEncrypted,
                ollamaHostUrl = nextOllamaHostUrl,
                ollamaModel = nextOllamaModel,
                id' = randomUUID e,
                authUserId = uid,
                createdAt = now e,
                updatedAt = now e\<rparr> of
          Inl err \<Rightarrow> Inl SaveFailed
        | Inr db' \<Rightarrow> Inr db'))))))"









section \<open>Model resolver (\<open>src/unnamed/part_000\<close>)\<close>

datatype LanguageModel =
    OpenAI string
  | GoogleGenerativeAI string string
  | OpenAICompatible string string string string

text \<open>
  \<open>openai(modelId)\<close>; \<open>createGoogleGenerativeAI({ apiKey })(modelId)\<close>;
  \<open>createOpenAICompatible({ name, baseURL, apiKey })(modelId)\<close>.  The row this file
  selects has every column nullable.
\<close>

record userModelRow =
  um_preferredProvider :: "string option"
  um_geminiApiKeyEncrypted :: "string option"
  um_geminiModel :: "string option"
  um_ollamaHostUrl :: "string option"
  um_ollamaModel :: "string option"

record resolveOptions =
  purpose :: string
  fallbackOpenAiModelId :: string
  requireTools :: "bool option"

definition normalizeBaseUrl :: "string \<Rightarrow> string" where
  "normalizeBaseUrl url =
     (let trimmed = js_trim url in
      if trimmed = [] then []
      else if endsWithSlash trimmed then butlast trimmed else trimmed)"

text \<open>\<open>s.includes(p)\<close>, and the test of the pattern \<open>/deepseek-r1/i\<close>.\<close>

fun js_includes :: "string \<Rightarrow> string \<Rightarrow> bool" where
  "js_includes [] p = (p = [])"
| "js_includes (ch # rest) p = (startsWith (ch # rest) p \<or> js_includes rest p)"

definition asciiLower :: "char \<Rightarrow> char" where
  "asciiLower ch =
     (let n = (of_char ch :: nat) in if 65 \<le> n \<and> n \<le> 90 then char_of (n + 32) else ch)"

definition matchesDeepseekR1 :: "string \<Rightarrow> bool" where
  "matchesDeepseekR1 modelId = js_includes (map asciiLower modelId) ''deepseek-r1''"

text \<open>
  \<open>query uid\<close> is what the \<open>SELECT\<close> gives for the user: the error it throws, or
  \<open>rows[0]\<close>.  The body of the \<open>try\<close> is \<open>resolvePreferred\<close>; the \<open>catch\<close> returns the
  fallback.
\<close>

definition resolvePreferred ::
  "crypto \<Rightarrow> env \<Rightarrow> (string \<Rightarrow> error + userModelRow option) \<Rightarrow> resolveOptions
     \<Rightarrow> error + LanguageModel" where
  "resolvePreferred c e query options =
     (let fallback = OpenAI (fallbackOpenAiModelId options) in
      case getUserId e of
        Inl err \<Rightarrow> Inl err
      | Inr uid \<Rightarrow>
     (case query uid of
        Inl err \<Rightarrow> Inl err
      | Inr None \<Rightarrow> Inr fallback
      | Inr (Some settings) \<Rightarrow>
          let provider = (case um_preferredProvider settings of None \<Rightarrow> ''openai'' | Some p \<Rightarrow> p) in
          if provider = ''gemini'' then
            (if falsy (um_geminiApiKeyEncrypted settings) then Inr fallback
             else (case decryptSecret c e (the (um_geminiApiKeyEncrypted settings)) of
                     Inl err \<Rightarrow> Inl err
                   | Inr apiKey \<Rightarrow>
                       let modelId = (if falsy (um_geminiModel settings) then ''gemini-flash-latest''
                                      else the (um_geminiModel settings))
                       in Inr (GoogleGenerativeAI apiKey modelId)))
          else if provider = ''ollama'' then
            (let host = (if falsy (um_ollamaHostUrl settings) then []
                         else normalizeBaseUrl (the (um_ollamaHostUrl settings)));
                 modelId = (case um_ollamaModel settings of None \<Rightarrow> [] | Some m \<Rightarrow> js_trim m)
             in if host = [] \<or> modelId = [] then Inr fallback
                else if requireTools options = Some True \<and> matchesDeepseekR1 modelId
                then Inr fallback
                else Inr (OpenAICompatible ''ollama'' (host @ ''/v1'') ''ollama'' modelId))
          else Inr fallback))"

definition getPreferredModelForCurrentUser ::
  "crypto \<Rightarrow> env \<Rightarrow> (string \<Rightarrow> error + userModelRow option) \<Rightarrow> resolveOptions
     \<Rightarrow> LanguageModel" where
  "getPreferredModelForCurrentUser c e query options =
     (case resolvePreferred c e query options of
        Inl err \<Rightarrow> OpenAI (fallbackOpenAiModelId options)
      | Inr model \<Rightarrow> model)"

section \<open>Tool-orchestration request (\<open>POST\<close> in \<open>src/app/api/ai/chat/route.ts\<close>)\<close>

text \<open>
  \<open>String(v)\<close> for a value without a \<open>toString\<close> or \<open>valueOf\<close> of its own: an array
  joins its elements with commas, \<open>null\<close> elements as the empty string.
\<close>

fun digitsOf :: "nat \<Rightarrow> string" where
  "digitsOf n =
     (if n < 10 then [char_of (48 + n)] else digitsOf (n div 10) @ [char_of (48 + n mod 10)])"

definition intString :: "int \<Rightarrow> string" where
  "intString i = (if i < 0 then CHR ''-'' # digitsOf (nat (- i)) else digitsOf (nat i))"

fun joinComma :: "string list \<Rightarrow> string" where
  "joinComma [] = []"
| "joinComma [s] = s"
| "joinComma (s # t # rest) = s @ '','' @ joinComma (t # rest)"

fun js_String :: "json \<Rightarrow> string" where
  "js_String JNull = ''null''"
| "js_String (JBool b) = (if b then ''true'' else ''false'')"
| "js_String (JNum n) = intString n"
| "js_String (JStr s) = s"
| "js_String (JArr xs) = joinComma (map (\<lambda>x. if x = JNull then [] else js_String x) xs)"
| "js_String (JObj kvs) = ''[object Object]''"

text \<open>\<open>String(err[k] ?? '')\<close>\<close>

definition stringOrEmpty :: "json option \<Rightarrow> string" where
  "stringOrEmpty v =
     (case v of None \<Rightarrow> js_String (JStr []) | Some JNull \<Rightarrow> js_String (JStr []) | Some x \<Rightarrow> js_String x)"

definition isToolsUnsupportedError :: "json \<Rightarrow> bool" where
  "isToolsUnsupportedError err =
     (if \<not> isRecord err then False
      else
        let msg = stringOrEmpty (getProp err ''message'');
            responseBody = stringOrEmpty (getProp err ''responseBody'');
            statusCode = getProp err ''statusCode''
        in statusCode = Some (JNum 400) \<and>
           (js_includes msg ''does not support tools'' \<or>
            js_includes responseBody ''does not support tools''))"

text \<open>
  A thrown value, with whether it is an instance of \<open>z.ZodError\<close>; the arguments of a
  call of \<open>streamText\<close>; the response of the handler.
\<close>

record thrown =
  thrownValue :: json
  instanceofZodError :: bool

record ('m, 't) streamTextArgs =
  model :: LanguageModel
  messages :: 'm
  system :: string
  stopWhen :: nat
  tools :: 't

datatype 'r response = Streamed 'r | JsonResponse nat json

definition typeError :: thrown where
  "typeError = \<lparr>thrownValue = JObj [(''name'', JStr ''TypeError'')], instanceofZodError = False\<rparr>"

text \<open>
  The body of the handler's \<open>try\<close>: the result or the value thrown, with the calls of
  \<open>streamText\<close> made, in order.  Parameters: what \<open>req.json()\<close> gives, the library's
  \<open>convertToModelMessages\<close>, the system prompt as a function of the request body, the
  tool set, and \<open>streamText\<close> itself: what a call throws (\<open>Inl\<close>), or the result it
  returns (\<open>Inr\<close>), which the handler turns into the response without awaiting it.
\<close>

definition POST_try ::
  "crypto \<Rightarrow> env \<Rightarrow> (string \<Rightarrow> error + userModelRow option) \<Rightarrow> thrown + json
     \<Rightarrow> (json list \<Rightarrow> thrown + 'm) \<Rightarrow> (json \<Rightarrow> string) \<Rightarrow> 't
     \<Rightarrow> (('m, 't) streamTextArgs \<Rightarrow> thrown + 'r)
     \<Rightarrow> (thrown + 'r) \<times> ('m, 't) streamTextArgs list" where
  "POST_try c e query reqJson convertToModelMessages systemPromptOf tools' streamText =
     (case reqJson of
        Inl err \<Rightarrow> (Inl err, [])
      | Inr body \<Rightarrow>
          if body = JNull then (Inl typeError, [])
          else
            let sanitizedMessages =
                  (case getProp body ''messages'' of
                     None \<Rightarrow> []
                   | Some rawMessages \<Rightarrow> sanitizeMessagesForModel rawMessages)
            in
            (case convertToModelMessages sanitizedMessages of
               Inl err \<Rightarrow> (Inl err, [])
             | Inr convertedMessages \<Rightarrow>
                 let model' = getPreferredModelForCurrentUser c e query
                       \<lparr>purpose = ''chat'', fallbackOpenAiModelId = ''gpt-4o'',
                        requireTools = Some True\<rparr>;
                     systemPrompt = systemPromptOf body;
                     first = \<lparr>model = model', messages = convertedMessages,
                              system = systemPrompt, stopWhen = 10, tools = tools'\<rparr>
                 in
                 (case streamText first of
                    Inr result \<Rightarrow> (Inr result, [first])
                  | Inl err \<Rightarrow>
                      if isToolsUnsupportedError (thrownValue err) then
                        let second = \<lparr>model = OpenAI ''gpt-4o'', messages = convertedMessages,
                                      system = systemPrompt, stopWhen = 10, tools = tools'\<rparr>
                        in (streamText second, [first, second])
                      else (Inl err, [first]))))"

text \<open>The handler: the outer \<open>catch\<close> turns whatever was thrown into a response.\<close>

definition POST_catch :: "thrown \<Rightarrow> 'r response" where
  "POST_catch err =
     (if instanceofZodError err then
        JsonResponse 400
          (JObj (case getProp (thrownValue err) ''errors'' of
                   None \<Rightarrow> []
                 | Some errors \<Rightarrow> [(''error'', errors)]))
      else JsonResponse 500 (JObj [(''error'', JStr ''Failed to process chat'')]))"

definition POST ::
  "crypto \<Rightarrow> env \<Rightarrow> (string \<Rightarrow> error + userModelRow option) \<Rightarrow> thrown + json
     \<Rightarrow> (json list \<Rightarrow> thrown + 'm) \<Rightarrow> (json \<Rightarrow> string) \<Rightarrow> 't
     \<Rightarrow> (('m, 't) streamTextArgs \<Rightarrow> thrown + 'r)
     \<Rightarrow> 'r response \<times> ('m, 't) streamTextArgs list" where
  "POST c e query reqJson convertToModelMessages systemPromptOf tools' streamText =
     (case POST_try c e query reqJson convertToModelMessages systemPromptOf tools' streamText of
        (Inr result, calls) \<Rightarrow> (Streamed result, calls)
      | (Inl err, calls) \<Rightarrow> (POST_catch err, calls))"


section \<open>Properties of the message sanitizer\<close>

declare dropTrailingNonUser.simps [simp del]

lemma js_trim_idem: "js_trim (js_trim s) = js_trim s"
proof -
  define t where "t = dropWhile isWhiteSpace s"
  define u where "u = dropWhile isWhiteSpace (rev t)"
  have hd_t: "t \<noteq> [] \<Longrightarrow> \<not> isWhiteSpace (hd t)"
    unfolding t_def by (simp add: hd_dropWhile)
  have "dropWhile isWhiteSpace (rev u) = rev u"
  proof (cases "u = []")
    case True then show ?thesis by simp
  next
    case False
    then have "t \<noteq> []" unfolding u_def by auto
    have "\<exists>ws. rev t = ws @ u" unfolding u_def
      by (metis takeWhile_dropWhile_id)
    then obtain ws where "rev t = ws @ u" by blast
    then have "t = rev u @ rev ws" by (metis rev_append rev_rev_ident)
    with False have "hd (rev u) = hd t" by simp
    with hd_t[OF \<open>t \<noteq> []\<close>] have "\<not> isWhiteSpace (hd (rev u))" by simp
    with False show ?thesis by (cases "rev u") auto
  qed
  then show ?thesis
    unfolding js_trim_def t_def[symmetric] u_def[symmetric]
    by (simp add: u_def)
qed

lemma dropTrailing_last:
  "dropTrailingNonUser xs = [] \<or> getProp (last (dropTrailingNonUser xs)) ''role'' = Some (JStr ''user'')"
proof (induction xs rule: dropTrailingNonUser.induct)
  case (1 sanitized)
  show ?case
  proof (cases "length sanitized > 0 \<and> getProp (last sanitized) ''role'' \<noteq> Some (JStr ''user'')")
    case True
    with 1 show ?thesis by (subst (1 2) dropTrailingNonUser.simps) simp
  next
    case False
    then show ?thesis by (subst (1 2) dropTrailingNonUser.simps) auto
  qed
qed

lemma dropTrailing_split:
  "\<exists>ys. xs = dropTrailingNonUser xs @ ys \<and> (\<forall>m \<in> set ys. getProp m ''role'' \<noteq> Some (JStr ''user''))"
proof (induction xs rule: dropTrailingNonUser.induct)
  case (1 sanitized)
  show ?case
  proof (cases "length sanitized > 0 \<and> getProp (last sanitized) ''role'' \<noteq> Some (JStr ''user'')")
    case True
    with 1 obtain ys where ys: "butlast sanitized = dropTrailingNonUser (butlast sanitized) @ ys"
      "\<forall>m \<in> set ys. getProp m ''role'' \<noteq> Some (JStr ''user'')" by blast
    from True have eq: "dropTrailingNonUser sanitized = dropTrailingNonUser (butlast sanitized)"
      by (subst dropTrailingNonUser.simps) simp
    from True have "sanitized = butlast sanitized @ [last sanitized]" by simp
    with ys(1) have "sanitized = dropTrailingNonUser sanitized @ (ys @ [last sanitized])"
      unfolding eq by (metis append_assoc)
    moreover from ys(2) True have "\<forall>m \<in> set (ys @ [last sanitized]). getProp m ''role'' \<noteq> Some (JStr ''user'')"
      by auto
    ultimately show ?thesis by blast
  next
    case False
    then have "dropTrailingNonUser sanitized = sanitized"
      by (subst dropTrailingNonUser.simps) auto
    then show ?thesis by simp
  qed
qed

lemma dropTrailing_fix:
  "xs = [] \<or> getProp (last xs) ''role'' = Some (JStr ''user'') \<Longrightarrow> dropTrailingNonUser xs = xs"
  by (subst dropTrailingNonUser.simps) auto

lemma dropTrailing_idem: "dropTrailingNonUser (dropTrailingNonUser xs) = dropTrailingNonUser xs"
  by (rule dropTrailing_fix) (rule dropTrailing_last)

lemma dropTrailing_subset: "set (dropTrailingNonUser xs) \<subseteq> set xs"
  using dropTrailing_split[of xs] by (metis Un_upper1 set_append)

lemma keepPart_textPart:
  assumes "isUIMessageRole (Some (JStr role))" "js_trim t \<noteq> []"
  shows "keepPart role (textPart (js_trim t))"
  using assms
  by (auto simp: keepPart_def textPart_def isUIMessageRole_def startsWith_def js_trim_idem)

lemma fallbackMessage_shape:
  assumes "fallbackMessage role raw = Some m" "isUIMessageRole (Some (JStr role))"
  shows "\<exists>parts. m = uiMessage role parts \<and> parts \<noteq> [] \<and> (\<forall>p \<in> set parts. keepPart role p)"
proof -
  from assms(1) obtain t where t: "js_trim t \<noteq> []" "m = uiMessage role [textPart (js_trim t)]"
    by (auto simp: fallbackMessage_def split: option.splits json.splits if_splits)
  with keepPart_textPart[OF assms(2) t(1)] show ?thesis by auto
qed

lemma sanitizeMessage_shape:
  assumes "sanitizeMessage raw = Some m"
  shows "\<exists>role parts. m = uiMessage role parts \<and> isUIMessageRole (Some (JStr role)) \<and>
     parts \<noteq> [] \<and> (\<forall>p \<in> set parts. keepPart role p)"
proof -
  from assms have rec: "isRecord raw" and ok: "isUIMessageRole (getProp raw ''role'')"
    by (auto simp: sanitizeMessage_def split: if_splits)
  from ok obtain role where role: "getProp raw ''role'' = Some (JStr role)"
    by (auto simp: isUIMessageRole_def)
  show ?thesis
  proof (cases "\<exists>parts. getProp raw ''parts'' = Some (JArr parts) \<and> filter (keepPart role) parts \<noteq> []")
    case True
    then obtain parts where p: "getProp raw ''parts'' = Some (JArr parts)"
      "filter (keepPart role) parts \<noteq> []" by blast
    with assms rec ok role have "m = uiMessage role (filter (keepPart role) parts)"
      by (simp add: sanitizeMessage_def)
    moreover have "\<forall>q \<in> set (filter (keepPart role) parts). keepPart role q" by simp
    ultimately show ?thesis using p(2) ok role by metis
  next
    case False
    with assms rec ok role have "fallbackMessage role raw = Some m"
      by (auto simp: sanitizeMessage_def Let_def split: option.splits json.splits if_splits)
    from fallbackMessage_shape[OF this] ok role show ?thesis by auto
  qed
qed

lemma sanitizeMessage_fix:
  assumes "isUIMessageRole (Some (JStr role))" "parts \<noteq> []" "\<forall>p \<in> set parts. keepPart role p"
  shows "sanitizeMessage (uiMessage role parts) = Some (uiMessage role parts)"
proof -
  from assms(3) have "filter (keepPart role) parts = parts" by (simp add: filter_id_conv)
  with assms(1,2) show ?thesis
    by (simp add: sanitizeMessage_def uiMessage_def)
qed

lemma sanitizeMessage_idem: "sanitizeMessage raw = Some m \<Longrightarrow> sanitizeMessage m = Some m"
  using sanitizeMessage_shape sanitizeMessage_fix by blast

lemma sanitizeEach_range: "m \<in> set (sanitizeEach raws) \<Longrightarrow> \<exists>raw. sanitizeMessage raw = Some m"
  by (induction raws) (auto split: option.splits)

lemma sanitizeEach_fix: "(\<forall>m \<in> set ms. sanitizeMessage m = Some m) \<Longrightarrow> sanitizeEach ms = ms"
  by (induction ms) auto

text \<open>
  Claim C2.  Whatever the raw message list is, the sanitizer's output is empty or ends
  with a message of role \<open>user\<close>; and for an array input the output is what per-message
  filtering gives with a run of trailing messages removed, none of which has role
  \<open>user\<close>: the removal stops at the last \<open>user\<close> message.
\<close>

theorem sanitize_ends_with_user:
  "(sanitizeMessagesForModel rawMessages = [] \<or>
    getProp (last (sanitizeMessagesForModel rawMessages)) ''role'' = Some (JStr ''user'')) \<and>
   (\<forall>raws. rawMessages = JArr raws \<longrightarrow>
      (\<exists>removed. sanitizeEach raws = sanitizeMessagesForModel rawMessages @ removed \<and>
         (\<forall>m \<in> set removed. getProp m ''role'' \<noteq> Some (JStr ''user''))))"
proof (cases rawMessages)
  case (JArr raws)
  then have out: "sanitizeMessagesForModel rawMessages = dropTrailingNonUser (sanitizeEach raws)"
    by (simp add: sanitizeMessagesForModel_def)
  have ends: "sanitizeMessagesForModel rawMessages = [] \<or>
      getProp (last (sanitizeMessagesForModel rawMessages)) ''role'' = Some (JStr ''user'')"
    unfolding out by (rule dropTrailing_last)
  have "\<exists>removed. sanitizeEach raws = sanitizeMessagesForModel rawMessages @ removed \<and>
      (\<forall>m \<in> set removed. getProp m ''role'' \<noteq> Some (JStr ''user''))"
    unfolding out by (rule dropTrailing_split)
  with JArr have "\<forall>raws'. rawMessages = JArr raws' \<longrightarrow>
      (\<exists>removed. sanitizeEach raws' = sanitizeMessagesForModel rawMessages @ removed \<and>
         (\<forall>m \<in> set removed. getProp m ''role'' \<noteq> Some (JStr ''user'')))"
    by blast
  with ends show ?thesis by blast
qed (simp_all add: sanitizeMessagesForModel_def)

theorem sanitize_ends_with_user_witness:
  "sanitizeMessagesForModel
     (JArr [JObj [(''role'', JStr ''user''), (''content'', JStr ''hello'')],
            JObj [(''role'', JStr ''assistant''), (''content'', JStr ''...'')]])
   = [uiMessage ''user'' [textPart ''hello'']] \<and>
   getProp (last (sanitizeMessagesForModel
     (JArr [JObj [(''role'', JStr ''user''), (''content'', JStr ''hello'')],
            JObj [(''role'', JStr ''assistant''), (''content'', JStr ''...'')]]))) ''role''
   = Some (JStr ''user'') \<and>
   (\<exists>removed.
      sanitizeEach [JObj [(''role'', JStr ''user''), (''content'', JStr ''hello'')],
                    JObj [(''role'', JStr ''assistant''), (''content'', JStr ''...'')]]
      = [uiMessage ''user'' [textPart ''hello'']] @ removed)"
proof -
  let ?raws = "[JObj [(''role'', JStr ''user''), (''content'', JStr ''hello'')],
                JObj [(''role'', JStr ''assistant''), (''content'', JStr ''...'')]]"
  let ?out = "[uiMessage ''user'' [textPart ''hello'']]"
  have each: "sanitizeEach ?raws = ?out @ [uiMessage ''assistant'' [textPart ''...'']]"
    by (simp add: sanitizeMessage_def isUIMessageRole_def fallbackMessage_def fallbackText_def
        js_trim_def isWhiteSpace_def)
  have drop: "dropTrailingNonUser (?out @ [uiMessage ''assistant'' [textPart ''...'']]) = ?out"
    by (simp add: dropTrailingNonUser.simps uiMessage_def)
  have out: "sanitizeMessagesForModel (JArr ?raws) = ?out"
    unfolding sanitizeMessagesForModel_def json.case each by (rule drop)
  note inst = sanitize_ends_with_user [of "JArr ?raws", unfolded out]
  from inst have "?out = [] \<or> getProp (last ?out) ''role'' = Some (JStr ''user'')"
    by (rule conjunct1)
  then have last: "getProp (last ?out) ''role'' = Some (JStr ''user'')"
    by blast
  from inst have "\<exists>removed. sanitizeEach ?raws = ?out @ removed"
    by blast
  with last show ?thesis unfolding out by blast
qed

text \<open>
  Claim C3.  Sanitizing is idempotent: the sanitizer applied to its own output (an array
  of the messages it returned) returns that output.
\<close>

theorem sanitize_idempotent:
  "sanitizeMessagesForModel (JArr (sanitizeMessagesForModel rawMessages)) =
   sanitizeMessagesForModel rawMessages"
proof (cases rawMessages)
  case (JArr raws)
  let ?out = "dropTrailingNonUser (sanitizeEach raws)"
  have "\<forall>m \<in> set ?out. sanitizeMessage m = Some m"
    using dropTrailing_subset sanitizeEach_range sanitizeMessage_idem by blast
  then have "sanitizeEach ?out = ?out" by (rule sanitizeEach_fix)
  with JArr show ?thesis by (simp add: sanitizeMessagesForModel_def dropTrailing_idem)
qed (simp_all add: sanitizeMessagesForModel_def dropTrailingNonUser.simps)

theorem sanitize_idempotent_witness:
  "sanitizeMessagesForModel (JArr (sanitizeMessagesForModel
     (JArr [JObj [(''role'', JStr ''user''), (''content'', JStr '' hi '')], JNum 3])))
   = [uiMessage ''user'' [textPart ''hi'']]"
proof -
  have "sanitizeMessagesForModel
      (JArr [JObj [(''role'', JStr ''user''), (''content'', JStr '' hi '')], JNum 3])
      = [uiMessage ''user'' [textPart ''hi'']]"
    by (simp add: sanitizeMessagesForModel_def sanitizeMessage_def isUIMessageRole_def
        fallbackMessage_def fallbackText_def js_trim_def isWhiteSpace_def
        dropTrailingNonUser.simps uiMessage_def)
  with sanitize_idempotent
    [of "JArr [JObj [(''role'', JStr ''user''), (''content'', JStr '' hi '')], JNum 3]"]
  show ?thesis by simp
qed

text \<open>
  Claim C7.  The claim says that a \<open>user\<close> message keeps its non-empty text parts and its
  file parts and nothing else.  The filter keeps every other part of a \<open>user\<close> message
  too, as long as it is an object whose type is neither \<open>step-start\<close> nor starts with
  \<open>tool-\<close>: here a part of type \<open>reasoning\<close> survives sanitizing.
\<close>

theorem user_part_of_other_type_is_kept:
  "sanitizeMessagesForModel
     (JArr [JObj [(''role'', JStr ''user''),
                  (''parts'', JArr [JObj [(''type'', JStr ''reasoning''), (''text'', JStr ''plan'')]])]])
   = [uiMessage ''user'' [JObj [(''type'', JStr ''reasoning''), (''text'', JStr ''plan'')]]]"
  by (simp add: sanitizeMessagesForModel_def sanitizeMessage_def isUIMessageRole_def
      keepPart_def startsWith_def dropTrailingNonUser.simps uiMessage_def)

text \<open>What the filter does keep for a \<open>user\<close> message.\<close>

lemma keepPart_user:
  "keepPart ''user'' part \<longleftrightarrow>
     isRecord part \<and>
     typeOfPart (getProp part ''type'') \<noteq> Some ''step-start'' \<and>
     (\<forall>t. typeOfPart (getProp part ''type'') = Some t \<longrightarrow> \<not> startsWith t ''tool-'') \<and>
     (typeOfPart (getProp part ''type'') = Some ''text'' \<longrightarrow> nonEmptyText (getProp part ''text''))"
  by (auto simp: keepPart_def Let_def split: option.splits)

section \<open>Properties of the provider settings store\<close>

lemma find_Some_member: "find P xs = Some x \<Longrightarrow> x \<in> set xs \<and> P x"
  by (induction xs) (auto split: if_splits)

text \<open>
  What an upsert without an API key stores for a user who has a row: every column the
  statement names is overwritten, with the value computed from the input and the row
  read before.
\<close>

lemma upsert_existing_row:
  assumes user: "getUserId e = Inr uid"
    and valid: "upsertSchema_parse input = Inr input"
    and nokey: "in_geminiApiKey input = None"
    and cur: "find (\<lambda>r. authUserId r = uid) rows = Some cur"
  shows "upsertAiSettingsAction c e (Some rows) input =
    Inr (Some (map (\<lambda>r. if authUserId r = uid
        then r\<lparr>preferredProvider := in_preferredProvider input,
               geminiApiKeyEncrypted := geminiApiKeyEncrypted cur,
               geminiModel := (case in_geminiModel input of
                                 None \<Rightarrow> ''gemini-flash-latest'' | Some m \<Rightarrow> m),
               ollamaHostUrl := (case in_ollamaHostUrl input of
                                   None \<Rightarrow> ollamaHostUrl cur
                                 | Some h \<Rightarrow> if h = [] then ollamaHostUrl cur
                                            else if normalizeHostUrl h = [] then None
                                            else Some (normalizeHostUrl h)),
               ollamaModel := (case in_ollamaModel input of
                                 None \<Rightarrow> ollamaModel cur
                                | Some m \<Rightarrow> if js_trim m = [] then None else Some (js_trim m)),
               updatedAt := now e\<rparr>
        else r) rows))"
proof -
  from cur have ex: "\<exists>r \<in> set rows. authUserId r = uid"
    using find_Some_member by fastforce
  show ?thesis
    using user valid nokey cur ex
    by (simp add: upsertAiSettingsAction_def selectAiSettings_def insertOrUpdate_def Let_def
        split: option.splits)
qed

text \<open>
  Claim C1.  The claim says that an upsert supplying only \<open>preferredProvider\<close> leaves
  every other stored field as it was.  The stored key, host and Ollama model are kept,
  but \<open>geminiModel\<close> is not: an absent \<open>geminiModel\<close> is replaced by
  \<open>'gemini-flash-latest'\<close> before the write, so a stored \<open>'gemini-2.5-pro'\<close> is lost.
\<close>

theorem provider_only_upsert_resets_geminiModel:
  "upsertAiSettingsAction c
     \<lparr>getUserId = Inr ''u1'', ENCRYPTION_KEY = Some ''k'', randomBytes12 = ''000000000000'',
      randomUUID = ''id-2'', now = 2\<rparr>
     (Some [\<lparr>preferredProvider = ''gemini'', geminiModel = ''gemini-2.5-pro'',
            geminiApiKeyEncrypted = Some ''aXY=.dGFn.Y3Q='',
            ollamaHostUrl = Some ''http://localhost:11434'', ollamaModel = Some ''llama3'',
            id' = ''id-1'', authUserId = ''u1'', createdAt = 1, updatedAt = 1\<rparr>])
     \<lparr>in_preferredProvider = ''ollama'', in_geminiApiKey = None, in_geminiModel = None,
      in_ollamaHostUrl = None, in_ollamaModel = None\<rparr>
   = Inr (Some [\<lparr>preferredProvider = ''ollama'', geminiModel = ''gemini-flash-latest'',
            geminiApiKeyEncrypted = Some ''aXY=.dGFn.Y3Q='',
            ollamaHostUrl = Some ''http://localhost:11434'', ollamaModel = Some ''llama3'',
            id' = ''id-1'', authUserId = ''u1'', createdAt = 1, updatedAt = 2\<rparr>])"
  by (simp add: upsertAiSettingsAction_def upsertSchema_parse_def selectAiSettings_def
      insertOrUpdate_def)

text \<open>
  Claim C8.  The claim says that an absent host leaves the stored host untouched, that
  an empty host string clears it, and that a non-empty host is stored normalized.  The
  first and the last hold (\<open>upsert_existing_row\<close>); but the empty string is falsy, so
  \<open>data.ollamaHostUrl ? ... : undefined\<close> treats it as absent and the stored host stays.
\<close>

theorem empty_host_does_not_clear:
  "upsertAiSettingsAction c
     \<lparr>getUserId = Inr ''u1'', ENCRYPTION_KEY = Some ''k'', randomBytes12 = ''000000000000'',
      randomUUID = ''id-2'', now = 2\<rparr>
     (Some [\<lparr>preferredProvider = ''ollama'', geminiModel = ''gemini-flash-latest'',
            geminiApiKeyEncrypted = None,
            ollamaHostUrl = Some ''http://localhost:11434'', ollamaModel = Some ''llama3'',
            id' = ''id-1'', authUserId = ''u1'', createdAt = 1, updatedAt = 1\<rparr>])
     \<lparr>in_preferredProvider = ''ollama'', in_geminiApiKey = None,
      in_geminiModel = Some ''gemini-flash-latest'',
      in_ollamaHostUrl = Some [], in_ollamaModel = Some ''llama3''\<rparr>
   = Inr (Some [\<lparr>preferredProvider = ''ollama'', geminiModel = ''gemini-flash-latest'',
            geminiApiKeyEncrypted = None,
            ollamaHostUrl = Some ''http://localhost:11434'', ollamaModel = Some ''llama3'',
            id' = ''id-1'', authUserId = ''u1'', createdAt = 1, updatedAt = 2\<rparr>])"
  by (simp add: upsertAiSettingsAction_def upsertSchema_parse_def selectAiSettings_def
      insertOrUpdate_def js_trim_def isWhiteSpace_def)

text \<open>The sibling field: an empty \<open>ollamaModel\<close> does clear the stored model.\<close>

lemma empty_model_clears:
  "upsertAiSettingsAction c
     \<lparr>getUserId = Inr ''u1'', ENCRYPTION_KEY = Some ''k'', randomBytes12 = ''000000000000'',
      randomUUID = ''id-2'', now = 2\<rparr>
     (Some [\<lparr>preferredProvider = ''ollama'', geminiModel = ''gemini-flash-latest'',
            geminiApiKeyEncrypted = None,
            ollamaHostUrl = Some ''http://localhost:11434'', ollamaModel = Some ''llama3'',
            id' = ''id-1'', authUserId = ''u1'', createdAt = 1, updatedAt = 1\<rparr>])
     \<lparr>in_preferredProvider = ''ollama'', in_geminiApiKey = None,
      in_geminiModel = Some ''gemini-flash-latest'',
      in_ollamaHostUrl = None, in_ollamaModel = Some []\<rparr>
   = Inr (Some [\<lparr>preferredProvider = ''ollama'', geminiModel = ''gemini-flash-latest'',
            geminiApiKeyEncrypted = None,
            ollamaHostUrl = Some ''http://localhost:11434'', ollamaModel = None,
            id' = ''id-1'', authUserId = ''u1'', createdAt = 1, updatedAt = 2\<rparr>])"
  by (simp add: upsertAiSettingsAction_def upsertSchema_parse_def selectAiSettings_def
      insertOrUpdate_def js_trim_def)

text \<open>A host of white space only is cleared, and a host is stored trimmed, without one
  trailing slash.\<close>

lemma blank_host_clears_and_host_is_normalized:
  "normalizeHostUrl ''  '' = [] \<and>
   normalizeHostUrl '' http://localhost:11434/ '' = ''http://localhost:11434'' \<and>
   normalizeHostUrl ''http://localhost:11434//'' = ''http://localhost:11434/''"
  by (simp add: normalizeHostUrl_def js_trim_def isWhiteSpace_def endsWithSlash_def)

section \<open>Properties of the secret codec\<close>

text \<open>
  Claim C6.  The claim says that a token of four or more non-empty segments is rejected
  with the invalid-payload error.  Only the first three segments are bound and checked:
  with the key configured, \<open>a.b.c.d\<close> passes the check and is handed to the decipher,
  the fourth segment ignored.
\<close>

theorem four_segments_are_deciphered:
  "decryptSecret c
     \<lparr>getUserId = Inr ''u1'', ENCRYPTION_KEY = Some ''k'', randomBytes12 = ''000000000000'',
      randomUUID = ''id-2'', now = 2\<rparr> ''a.b.c.d''
   = gcmDecrypt c (sha256 c ''k'') (fromBase64 c ''a'') (fromBase64 c ''b'') (fromBase64 c ''c'')"
  by (simp add: decryptSecret_def getKey_def element_def)

text \<open>With the key configured, a token of fewer than three segments, or with one of the
  first three empty, is rejected.\<close>

lemma decrypt_rejects_short_payload:
  assumes "getKey c e = Inr key"
    and "length (js_split (CHR ''.'') payload) < 3 \<or>
         [] \<in> set (take 3 (js_split (CHR ''.'') payload))"
  shows "decryptSecret c e payload = Inl InvalidPayload"
proof -
  let ?segs = "js_split (CHR ''.'') payload"
  have "falsy (element ?segs 0) \<or> falsy (element ?segs 1) \<or> falsy (element ?segs 2)"
  proof (cases "length ?segs < 3")
    case True
    then show ?thesis by (auto simp: element_def)
  next
    case False
    with assms(2) obtain i where "i < 3" "?segs ! i = []"
      by (auto simp: in_set_conv_nth)
    then have "i = 0 \<or> i = 1 \<or> i = 2" by auto
    with False \<open>?segs ! i = []\<close> show ?thesis by (auto simp: element_def)
  qed
  with assms(1) show ?thesis by (simp add: decryptSecret_def Let_def)
qed

text \<open>
  The framing of a token, relative to the primitives: where the cipher decrypts what it
  encrypted and the three base64 segments decode to what they encode, hold no \<open>.\<close> and
  are not empty, decrypting the token gives the plaintext back.  Whether the cipher
  does so, and whether it rejects a modified ciphertext, is a property of
  \<open>aes-256-gcm\<close> in \<open>node:crypto\<close>, not of this code: \<open>decryptSecret\<close> returns whatever
  \<open>gcmDecrypt\<close> returns.
\<close>

lemma js_split_no_separator: "sep \<notin> set s \<Longrightarrow> js_split sep s = [s]"
  by (induction s) auto

lemma js_split_segment:
  "sep \<notin> set s \<Longrightarrow> js_split sep (s @ sep # rest) = s # js_split sep rest"
  by (induction s) (auto split: list.splits)

lemma js_split_three:
  assumes "CHR ''.'' \<notin> set a" "CHR ''.'' \<notin> set b" "CHR ''.'' \<notin> set d"
  shows "js_split (CHR ''.'') (a @ ''.'' @ b @ ''.'' @ d) = [a, b, d]"
  using assms by (simp add: js_split_segment js_split_no_separator)

lemma encrypt_then_decrypt_framing:
  assumes key: "ENCRYPTION_KEY e = Some raw" "raw \<noteq> []"
    and sealed: "gcmEncrypt c (sha256 c raw) (randomBytes12 e) plaintext = (ciphertext, tag)"
    and opened: "gcmDecrypt c (sha256 c raw) (randomBytes12 e) tag ciphertext = Inr plaintext"
    and decode: "\<forall>b \<in> {randomBytes12 e, tag, ciphertext}.
        fromBase64 c (toBase64 c b) = b \<and> CHR ''.'' \<notin> set (toBase64 c b) \<and> toBase64 c b \<noteq> []"
  shows "encryptSecret c e plaintext =
           Inr (toBase64 c (randomBytes12 e) @ ''.'' @ toBase64 c tag @ ''.'' @ toBase64 c ciphertext) \<and>
         decryptSecret c e
           (toBase64 c (randomBytes12 e) @ ''.'' @ toBase64 c tag @ ''.'' @ toBase64 c ciphertext)
         = Inr plaintext"
proof -
  have k: "getKey c e = Inr (sha256 c raw)"
    using key by (simp add: getKey_def)
  have enc: "encryptSecret c e plaintext =
      Inr (toBase64 c (randomBytes12 e) @ ''.'' @ toBase64 c tag @ ''.'' @ toBase64 c ciphertext)"
    using sealed by (simp add: encryptSecret_def k)
  from decode have split: "js_split (CHR ''.'')
      (toBase64 c (randomBytes12 e) @ ''.'' @ toBase64 c tag @ ''.'' @ toBase64 c ciphertext)
      = [toBase64 c (randomBytes12 e), toBase64 c tag, toBase64 c ciphertext]"
    by (intro js_split_three) simp_all
  have dec: "decryptSecret c e
      (toBase64 c (randomBytes12 e) @ ''.'' @ toBase64 c tag @ ''.'' @ toBase64 c ciphertext)
      = Inr plaintext"
    unfolding decryptSecret_def k split using decode opened
    by (simp add: element_def)
  from enc dec show ?thesis by (rule conjI)
qed

text \<open>An empty ciphertext segment, which is what an empty plaintext gives, is rejected
  when the token is read back.\<close>

lemma decrypt_rejects_empty_ciphertext:
  assumes "getKey c e = Inr key" "CHR ''.'' \<notin> set iv64" "CHR ''.'' \<notin> set tag64"
  shows "decryptSecret c e (iv64 @ ''.'' @ tag64 @ ''.'' @ []) = Inl InvalidPayload"
proof -
  have "js_split (CHR ''.'') (iv64 @ ''.'' @ tag64 @ ''.'' @ []) = [iv64, tag64, []]"
    using assms(2,3) by (intro js_split_three) simp_all
  with assms(1) show ?thesis
    by (simp add: decryptSecret_def element_def)
qed

lemma js_split_first:
  "\<exists>rest. js_split sep s = takeWhile (\<lambda>ch. ch \<noteq> sep) s # rest"
  by (induction s) auto

text \<open>
  A token whose third segment has been replaced by any string: the payload is rejected
  when nothing stands before the first \<open>.\<close> of the replacement, and otherwise what
  stands there is decoded and handed to the decipher with the nonce and the tag.
\<close>

lemma decrypt_replaced_segment:
  assumes key: "getKey c e = Inr k"
    and iv64: "CHR ''.'' \<notin> set iv64" "iv64 \<noteq> []"
    and tag64: "CHR ''.'' \<notin> set tag64" "tag64 \<noteq> []"
  shows "decryptSecret c e (iv64 @ ''.'' @ tag64 @ ''.'' @ seg) =
     (if takeWhile (\<lambda>ch. ch \<noteq> CHR ''.'') seg = [] then Inl InvalidPayload
      else gcmDecrypt c k (fromBase64 c iv64) (fromBase64 c tag64)
             (fromBase64 c (takeWhile (\<lambda>ch. ch \<noteq> CHR ''.'') seg)))"
proof -
  obtain rest where rest: "js_split (CHR ''.'') seg = takeWhile (\<lambda>ch. ch \<noteq> CHR ''.'') seg # rest"
    using js_split_first by blast
  have "js_split (CHR ''.'') (iv64 @ ''.'' @ tag64 @ ''.'' @ seg) =
      iv64 # tag64 # takeWhile (\<lambda>ch. ch \<noteq> CHR ''.'') seg # rest"
    using iv64(1) tag64(1) by (simp add: js_split_segment rest)
  then show ?thesis
    using key iv64(2) tag64(2) by (simp add: decryptSecret_def element_def)
qed




text \<open>Whatever the primitives are, a token whose third segment starts with \<open>.\<close> is
  rejected by the shape check, before any authentication.\<close>

lemma decrypt_rejects_segment_starting_with_dot:
  assumes "getKey c e = Inr k" "CHR ''.'' \<notin> set iv64" "iv64 \<noteq> []"
    "CHR ''.'' \<notin> set tag64" "tag64 \<noteq> []"
  shows "decryptSecret c e (iv64 @ ''.'' @ tag64 @ ''.'' @ CHR ''.'' # rest) = Inl InvalidPayload"
  unfolding decrypt_replaced_segment [OF assms] by simp


section \<open>Properties of the model-listing probe\<close>












section \<open>Properties of the model resolver\<close>

text \<open>
  Claim C10.  When the user has no settings row, or the stored provider is \<open>'openai'\<close>
  or anything else than \<open>'gemini'\<close> and \<open>'ollama'\<close> (a null provider counts as
  \<open>'openai'\<close>), the resolver returns the OpenAI handle for the caller's
  \<open>fallbackOpenAiModelId\<close>, whatever the row's Gemini and Ollama fields hold.
\<close>

theorem resolver_falls_back_to_openai:
  assumes "getUserId e = Inr uid"
    and "query uid = Inr None \<or>
         (\<exists>settings. query uid = Inr (Some settings) \<and>
            um_preferredProvider settings \<noteq> Some ''gemini'' \<and>
            um_preferredProvider settings \<noteq> Some ''ollama'')"
  shows "getPreferredModelForCurrentUser c e query options =
         OpenAI (fallbackOpenAiModelId options)"
  using assms
  by (auto simp: getPreferredModelForCurrentUser_def resolvePreferred_def Let_def
      split: option.splits)

theorem resolver_falls_back_to_openai_witness:
  "getPreferredModelForCurrentUser
     \<lparr>sha256 = (\<lambda>s. s), gcmEncrypt = (\<lambda>k iv p. (p, k)), gcmDecrypt = (\<lambda>k iv t p. Inr p),
      toBase64 = (\<lambda>s. s), fromBase64 = (\<lambda>s. s)\<rparr>
     \<lparr>getUserId = Inr ''u1'', ENCRYPTION_KEY = Some ''k'', randomBytes12 = ''000000000000'',
      randomUUID = ''id-2'', now = 2\<rparr>
     (\<lambda>uid. Inr (Some \<lparr>um_preferredProvider = Some ''openai'',
                         um_geminiApiKeyEncrypted = Some ''aXY=.dGFn.Y3Q='',
                         um_geminiModel = Some ''gemini-2.5-pro'',
                         um_ollamaHostUrl = Some ''http://localhost:11434'',
                         um_ollamaModel = Some ''llama3''\<rparr>))
     \<lparr>purpose = ''chat'', fallbackOpenAiModelId = ''gpt-4o'', requireTools = Some True\<rparr>
   = OpenAI ''gpt-4o''"
proof -
  let ?row = "\<lparr>um_preferredProvider = Some ''openai'',
                um_geminiApiKeyEncrypted = Some ''aXY=.dGFn.Y3Q='',
                um_geminiModel = Some ''gemini-2.5-pro'',
                um_ollamaHostUrl = Some ''http://localhost:11434'',
                um_ollamaModel = Some ''llama3''\<rparr>"
  let ?e = "\<lparr>getUserId = Inr ''u1'', ENCRYPTION_KEY = Some ''k'',
              randomBytes12 = ''000000000000'', randomUUID = ''id-2'', now = 2\<rparr>"
  have user: "getUserId ?e = Inr ''u1''" by simp
  have row: "(\<lambda>uid. Inr (Some ?row)) ''u1'' = Inr None \<or>
      (\<exists>settings. (\<lambda>uid. Inr (Some ?row)) ''u1'' = Inr (Some settings) \<and>
         um_preferredProvider settings \<noteq> Some ''gemini'' \<and>
         um_preferredProvider settings \<noteq> Some ''ollama'')"
    by simp
  show ?thesis
    using resolver_falls_back_to_openai [OF user row,
        of _ "\<lparr>purpose = ''chat'', fallbackOpenAiModelId = ''gpt-4o'', requireTools = Some True\<rparr>"]
    by simp
qed

text \<open>For contrast: the same row with provider \<open>'ollama'\<close> resolves to the Ollama
  handle, and to the fallback when tools are required of a \<open>deepseek-r1\<close> model.\<close>

lemma resolver_ollama_examples:
  "getPreferredModelForCurrentUser c
     \<lparr>getUserId = Inr ''u1'', ENCRYPTION_KEY = None, randomBytes12 = [], randomUUID = [], now = 0\<rparr>
     (\<lambda>uid. Inr (Some \<lparr>um_preferredProvider = Some ''ollama'', um_geminiApiKeyEncrypted = None,
                         um_geminiModel = None,
                         um_ollamaHostUrl = Some ''http://localhost:11434/'',
                         um_ollamaModel = Some ''llama3''\<rparr>))
     \<lparr>purpose = ''chat'', fallbackOpenAiModelId = ''gpt-4o'', requireTools = Some True\<rparr>
   = OpenAICompatible ''ollama'' ''http://localhost:11434/v1'' ''ollama'' ''llama3''"
  "getPreferredModelForCurrentUser c
     \<lparr>getUserId = Inr ''u1'', ENCRYPTION_KEY = None, randomBytes12 = [], randomUUID = [], now = 0\<rparr>
     (\<lambda>uid. Inr (Some \<lparr>um_preferredProvider = Some ''ollama'', um_geminiApiKeyEncrypted = None,
                         um_geminiModel = None,
                         um_ollamaHostUrl = Some ''http://localhost:11434/'',
                         um_ollamaModel = Some ''DeepSeek-R1:8b''\<rparr>))
     \<lparr>purpose = ''chat'', fallbackOpenAiModelId = ''gpt-4o'', requireTools = Some True\<rparr>
   = OpenAI ''gpt-4o''"
  by code_simp+

section \<open>Properties of the chat request handler\<close>

text \<open>An error object with status 400 whose message is a string containing the marker
  is recognized, and so is one whose response body contains it.\<close>

lemma isToolsUnsupportedError_examples:
  "isToolsUnsupportedError
     (JObj [(''statusCode'', JNum 400), (''message'', JStr ''llama3 does not support tools'')])"
  "isToolsUnsupportedError
     (JObj [(''statusCode'', JNum 400), (''message'', JStr ''Bad Request''),
            (''responseBody'', JStr ''registry.ollama.ai/library/gemma does not support tools'')])"
  "\<not> isToolsUnsupportedError
     (JObj [(''statusCode'', JNum 500), (''message'', JStr ''llama3 does not support tools'')])"
  "\<not> isToolsUnsupportedError
     (JObj [(''statusCode'', JStr ''400''), (''message'', JStr ''llama3 does not support tools'')])"
  "\<not> isToolsUnsupportedError (JObj [(''statusCode'', JNum 400), (''message'', JStr ''quota'')])"
  "\<not> isToolsUnsupportedError (JStr ''does not support tools'')"
  by (simp_all add: isToolsUnsupportedError_def stringOrEmpty_def startsWith_def)

text \<open>Where the call of \<open>streamText\<close> returns, its result is the response, after that
  one call, whatever the result carries.\<close>

lemma returned_stream_is_the_response:
  fixes streamText :: "('m, 't) streamTextArgs \<Rightarrow> thrown + 'r"
  assumes "reqJson = Inr body" "body \<noteq> JNull"
    and "convertToModelMessages
        (case getProp body ''messages'' of
           None \<Rightarrow> []
         | Some rawMessages \<Rightarrow> sanitizeMessagesForModel rawMessages) = Inr convertedMessages"
    and "first = \<lparr>model = getPreferredModelForCurrentUser c e query
          \<lparr>purpose = ''chat'', fallbackOpenAiModelId = ''gpt-4o'', requireTools = Some True\<rparr>,
        messages = convertedMessages, system = systemPromptOf body, stopWhen = 10,
        tools = tools'\<rparr>"
    and "streamText first = Inr result"
  shows "POST c e query reqJson convertToModelMessages systemPromptOf tools' streamText =
         (Streamed result, [first])"
  using assms(1,2,3,5) unfolding assms(4)
  by (simp add: POST_def POST_try_def Let_def)

text \<open>
  Claim C4.  The claim says that a 400 \<open>does not support tools\<close> answer of the resolved
  model makes the handler retry once against \<open>openai('gpt-4o')\<close>.  The handler calls
  \<open>streamText\<close> without awaiting anything and answers with its result at once; the
  provider is only asked while the response streams, so its answer, an error included,
  is an event of the stream and never a throw of the call.  The \<open>catch\<close> and its retry
  are not reached: for a user whose Ollama model rejects tools, \<open>streamText\<close> is called
  once, with the Ollama model, and the response is the stream that carries the error.
\<close>

theorem provider_error_is_streamed_without_retry:
  "POST c
     \<lparr>getUserId = Inr ''u1'', ENCRYPTION_KEY = None, randomBytes12 = [], randomUUID = [], now = 0\<rparr>
     (\<lambda>uid. Inr (Some \<lparr>um_preferredProvider = Some ''ollama'',
        um_geminiApiKeyEncrypted = None, um_geminiModel = None,
        um_ollamaHostUrl = Some ''http://localhost:11434'', um_ollamaModel = Some ''llama3''\<rparr>))
     (Inr (JObj [(''messages'', JArr [JObj [(''role'', JStr ''user''), (''content'', JStr ''hi'')]])]))
     (\<lambda>ms. Inr ms) (\<lambda>body. ''coach'') [''getTradesSummary'']
     (\<lambda>args. Inr [JObj [(''type'', JStr ''error''),
                         (''errorText'',
                          JStr ''registry.ollama.ai/library/llama3 does not support tools'')]])
   = (Streamed [JObj [(''type'', JStr ''error''),
                      (''errorText'',
                       JStr ''registry.ollama.ai/library/llama3 does not support tools'')]],
      [\<lparr>model = OpenAICompatible ''ollama'' ''http://localhost:11434/v1'' ''ollama'' ''llama3'',
        messages = [uiMessage ''user'' [textPart ''hi'']],
        system = ''coach'', stopWhen = 10, tools = [''getTradesSummary'']\<rparr>])"
proof -
  let ?e = "\<lparr>getUserId = Inr ''u1'', ENCRYPTION_KEY = None, randomBytes12 = [],
              randomUUID = [], now = 0\<rparr>"
  let ?q = "\<lambda>uid :: string. (Inr (Some \<lparr>um_preferredProvider = Some ''ollama'',
        um_geminiApiKeyEncrypted = None, um_geminiModel = None,
        um_ollamaHostUrl = Some ''http://localhost:11434'', um_ollamaModel = Some ''llama3''\<rparr>)
      :: error + userModelRow option)"
  have model: "getPreferredModelForCurrentUser c ?e ?q
      \<lparr>purpose = ''chat'', fallbackOpenAiModelId = ''gpt-4o'', requireTools = Some True\<rparr>
      = OpenAICompatible ''ollama'' ''http://localhost:11434/v1'' ''ollama'' ''llama3''"
    by code_simp
  have san: "sanitizeMessagesForModel (JArr [JObj [(''role'', JStr ''user''), (''content'', JStr ''hi'')]])
      = [uiMessage ''user'' [textPart ''hi'']]"
    by (simp add: sanitizeMessagesForModel_def sanitizeMessage_def isUIMessageRole_def
        fallbackMessage_def fallbackText_def js_trim_def isWhiteSpace_def
        dropTrailingNonUser.simps uiMessage_def)
  show ?thesis
    by (simp add: POST_def POST_try_def model san)
qed

text \<open>
  What the \<open>catch\<close> around \<open>streamText\<close> does if the call itself throws.  Let the
  request body parse and the history convert, and let the first call of \<open>streamText\<close>,
  against the resolved model, throw \<open>err\<close>.  If \<open>err\<close> is an object whose
  \<open>statusCode\<close> is 400 and whose \<open>message\<close> or \<open>responseBody\<close>, as a string, contains
  \<open>does not support tools\<close>, then \<open>streamText\<close> is called exactly once more, with the
  model \<open>openai('gpt-4o')\<close> and the same messages, system prompt, step limit and tools,
  and the handler answers with what that call gives.  Any other \<open>err\<close> reaches the
  handler's outer \<open>catch\<close> after the one call.
\<close>

lemma synchronous_throw_is_retried_once:
  fixes streamText :: "('m, 't) streamTextArgs \<Rightarrow> thrown + 'r"
  assumes body: "reqJson = Inr body" "body \<noteq> JNull"
    and converted: "convertToModelMessages
        (case getProp body ''messages'' of
           None \<Rightarrow> []
         | Some rawMessages \<Rightarrow> sanitizeMessagesForModel rawMessages) = Inr convertedMessages"
    and first: "first = \<lparr>model = getPreferredModelForCurrentUser c e query
          \<lparr>purpose = ''chat'', fallbackOpenAiModelId = ''gpt-4o'', requireTools = Some True\<rparr>,
        messages = convertedMessages, system = systemPromptOf body, stopWhen = 10,
        tools = tools'\<rparr>"
    and raised: "streamText first = Inl err"
  shows
    "(isRecord (thrownValue err) \<and>
      getProp (thrownValue err) ''statusCode'' = Some (JNum 400) \<and>
      (js_includes (stringOrEmpty (getProp (thrownValue err) ''message''))
         ''does not support tools'' \<or>
       js_includes (stringOrEmpty (getProp (thrownValue err) ''responseBody''))
         ''does not support tools'')
      \<longrightarrow>
      POST c e query reqJson convertToModelMessages systemPromptOf tools' streamText =
        ((case streamText (first\<lparr>model := OpenAI ''gpt-4o''\<rparr>) of
            Inr result \<Rightarrow> Streamed result
          | Inl err' \<Rightarrow> POST_catch err'),
         [first, first\<lparr>model := OpenAI ''gpt-4o''\<rparr>])) \<and>
     (\<not> (isRecord (thrownValue err) \<and>
         getProp (thrownValue err) ''statusCode'' = Some (JNum 400) \<and>
         (js_includes (stringOrEmpty (getProp (thrownValue err) ''message''))
            ''does not support tools'' \<or>
          js_includes (stringOrEmpty (getProp (thrownValue err) ''responseBody''))
            ''does not support tools''))
      \<longrightarrow>
      POST c e query reqJson convertToModelMessages systemPromptOf tools' streamText =
        (POST_catch err, [first]))"
proof -
  let ?shape = "isRecord (thrownValue err) \<and>
      getProp (thrownValue err) ''statusCode'' = Some (JNum 400) \<and>
      (js_includes (stringOrEmpty (getProp (thrownValue err) ''message''))
         ''does not support tools'' \<or>
       js_includes (stringOrEmpty (getProp (thrownValue err) ''responseBody''))
         ''does not support tools'')"
  have shape: "isToolsUnsupportedError (thrownValue err) = ?shape"
    by (auto simp: isToolsUnsupportedError_def Let_def)
  have attempt: "POST_try c e query reqJson convertToModelMessages systemPromptOf tools' streamText =
      (if isToolsUnsupportedError (thrownValue err)
       then (streamText (first\<lparr>model := OpenAI ''gpt-4o''\<rparr>),
             [first, first\<lparr>model := OpenAI ''gpt-4o''\<rparr>])
       else (Inl err, [first]))"
    using body converted raised unfolding first
    by (simp add: POST_try_def Let_def)
  show ?thesis
    unfolding POST_def attempt shape
    by (simp split: sum.splits)
qed

lemma synchronous_throw_is_retried_once_example:
  "POST \<lparr>sha256 = (\<lambda>s. s), gcmEncrypt = (\<lambda>k iv p. (p, k)), gcmDecrypt = (\<lambda>k iv t p. Inr p),
         toBase64 = (\<lambda>s. s), fromBase64 = (\<lambda>s. s)\<rparr>
        \<lparr>getUserId = Inr ''u1'', ENCRYPTION_KEY = None, randomBytes12 = [],
         randomUUID = [], now = 0\<rparr>
        (\<lambda>uid. Inr (Some \<lparr>um_preferredProvider = Some ''ollama'',
           um_geminiApiKeyEncrypted = None, um_geminiModel = None,
           um_ollamaHostUrl = Some ''http://localhost:11434'', um_ollamaModel = Some ''llama3''\<rparr>))
        (Inr (JObj [(''messages'', JArr [JObj [(''role'', JStr ''user''), (''content'', JStr ''hi'')]])]))
        (\<lambda>ms. Inr ms) (\<lambda>body. ''coach'') [''getTradesSummary'']
        (\<lambda>args. if model args = OpenAI ''gpt-4o'' then Inr ''stream''
                 else Inl \<lparr>thrownValue = JObj [(''statusCode'', JNum 400),
                                                (''message'', JStr ''does not support tools'')],
                         instanceofZodError = False\<rparr>)
   = (Streamed ''stream'',
      [\<lparr>model = OpenAICompatible ''ollama'' ''http://localhost:11434/v1'' ''ollama'' ''llama3'',
        messages = [uiMessage ''user'' [textPart ''hi'']],
        system = ''coach'', stopWhen = 10, tools = [''getTradesSummary'']\<rparr>,
       \<lparr>model = OpenAI ''gpt-4o'', messages = [uiMessage ''user'' [textPart ''hi'']],
        system = ''coach'', stopWhen = 10, tools = [''getTradesSummary'']\<rparr>]) \<and>
   POST \<lparr>sha256 = (\<lambda>s. s), gcmEncrypt = (\<lambda>k iv p. (p, k)), gcmDecrypt = (\<lambda>k iv t p. Inr p),
         toBase64 = (\<lambda>s. s), fromBase64 = (\<lambda>s. s)\<rparr>
        \<lparr>getUserId = Inr ''u1'', ENCRYPTION_KEY = None, randomBytes12 = [],
         randomUUID = [], now = 0\<rparr>
        (\<lambda>uid. Inr (Some \<lparr>um_preferredProvider = Some ''ollama'',
           um_geminiApiKeyEncrypted = None, um_geminiModel = None,
           um_ollamaHostUrl = Some ''http://localhost:11434'', um_ollamaModel = Some ''llama3''\<rparr>))
        (Inr (JObj [(''messages'', JArr [JObj [(''role'', JStr ''user''), (''content'', JStr ''hi'')]])]))
        (\<lambda>ms. Inr ms) (\<lambda>body. ''coach'') [''getTradesSummary'']
        (\<lambda>args. (Inl \<lparr>thrownValue = JObj [(''statusCode'', JNum 429), (''message'', JStr ''quota'')],
                        instanceofZodError = False\<rparr> :: thrown + string))
   = (JsonResponse 500 (JObj [(''error'', JStr ''Failed to process chat'')]),
      [\<lparr>model = OpenAICompatible ''ollama'' ''http://localhost:11434/v1'' ''ollama'' ''llama3'',
        messages = [uiMessage ''user'' [textPart ''hi'']],
        system = ''coach'', stopWhen = 10, tools = [''getTradesSummary'']\<rparr>])"
proof -
  let ?c = "\<lparr>sha256 = (\<lambda>s. s), gcmEncrypt = (\<lambda>k iv p. (p, k)), gcmDecrypt = (\<lambda>k iv t p. Inr p),
         toBase64 = (\<lambda>s. s), fromBase64 = (\<lambda>s. s)\<rparr>"
  let ?e = "\<lparr>getUserId = Inr ''u1'', ENCRYPTION_KEY = None, randomBytes12 = [],
         randomUUID = [], now = 0\<rparr>"
  let ?q = "\<lambda>uid :: string. (Inr (Some \<lparr>um_preferredProvider = Some ''ollama'',
           um_geminiApiKeyEncrypted = None, um_geminiModel = None,
           um_ollamaHostUrl = Some ''http://localhost:11434'', um_ollamaModel = Some ''llama3''\<rparr>)
         :: error + userModelRow option)"
  let ?body = "JObj [(''messages'', JArr [JObj [(''role'', JStr ''user''), (''content'', JStr ''hi'')]])]"
  let ?conv = "\<lambda>ms :: json list. (Inr ms :: thrown + json list)"
  let ?sys = "\<lambda>body :: json. ''coach''"
  let ?tools = "[''getTradesSummary'']"
  let ?msgs = "[uiMessage ''user'' [textPart ''hi'']]"
  let ?first = "\<lparr>model = getPreferredModelForCurrentUser ?c ?e ?q
          \<lparr>purpose = ''chat'', fallbackOpenAiModelId = ''gpt-4o'', requireTools = Some True\<rparr>,
        messages = ?msgs, system = ?sys ?body, stopWhen = 10, tools = ?tools\<rparr>"
  let ?err1 = "\<lparr>thrownValue = JObj [(''statusCode'', JNum 400),
                                     (''message'', JStr ''does not support tools'')],
                instanceofZodError = False\<rparr>"
  let ?err2 = "\<lparr>thrownValue = JObj [(''statusCode'', JNum 429), (''message'', JStr ''quota'')],
                instanceofZodError = False\<rparr>"
  let ?st1 = "\<lambda>args :: (json list, string list) streamTextArgs.
       if model args = OpenAI ''gpt-4o'' then (Inr ''stream'' :: thrown + string)
       else Inl ?err1"
  let ?st2 = "\<lambda>args :: (json list, string list) streamTextArgs. (Inl ?err2 :: thrown + string)"
  have model: "getPreferredModelForCurrentUser ?c ?e ?q
      \<lparr>purpose = ''chat'', fallbackOpenAiModelId = ''gpt-4o'', requireTools = Some True\<rparr>
      = OpenAICompatible ''ollama'' ''http://localhost:11434/v1'' ''ollama'' ''llama3''"
    by code_simp
  have b1: "(Inr ?body :: thrown + json) = Inr ?body" by simp
  have b2: "?body \<noteq> JNull" by simp
  have san: "sanitizeMessagesForModel (JArr [JObj [(''role'', JStr ''user''), (''content'', JStr ''hi'')]])
      = ?msgs"
    by (simp add: sanitizeMessagesForModel_def sanitizeMessage_def isUIMessageRole_def
        fallbackMessage_def fallbackText_def js_trim_def isWhiteSpace_def
        dropTrailingNonUser.simps uiMessage_def)
  have conv: "?conv (case getProp ?body ''messages'' of
           None \<Rightarrow> []
         | Some rawMessages \<Rightarrow> sanitizeMessagesForModel rawMessages) = Inr ?msgs"
    by (simp add: san)
  have r1: "?st1 ?first = Inl ?err1" by (simp add: model)
  have r2: "?st2 ?first = Inl ?err2" by simp
  have shape1: "isRecord (thrownValue ?err1) \<and>
      getProp (thrownValue ?err1) ''statusCode'' = Some (JNum 400) \<and>
      (js_includes (stringOrEmpty (getProp (thrownValue ?err1) ''message''))
         ''does not support tools'' \<or>
       js_includes (stringOrEmpty (getProp (thrownValue ?err1) ''responseBody''))
         ''does not support tools'')"
    by (simp add: stringOrEmpty_def startsWith_def)
  have shape2: "\<not> (isRecord (thrownValue ?err2) \<and>
      getProp (thrownValue ?err2) ''statusCode'' = Some (JNum 400) \<and>
      (js_includes (stringOrEmpty (getProp (thrownValue ?err2) ''message''))
         ''does not support tools'' \<or>
       js_includes (stringOrEmpty (getProp (thrownValue ?err2) ''responseBody''))
         ''does not support tools''))"
    by simp
  from synchronous_throw_is_retried_once
    [where reqJson = "Inr ?body" and body = ?body and convertToModelMessages = ?conv
       and convertedMessages = ?msgs and first = ?first and c = ?c and e = ?e
       and query = ?q and systemPromptOf = ?sys and tools' = ?tools
       and streamText = ?st1 and err = ?err1, OF b1 b2 conv refl r1] shape1
  have "POST ?c ?e ?q (Inr ?body) ?conv ?sys ?tools ?st1 =
        ((case ?st1 (?first\<lparr>model := OpenAI ''gpt-4o''\<rparr>) of
            Inr result \<Rightarrow> Streamed result
          | Inl err' \<Rightarrow> POST_catch err'),
         [?first, ?first\<lparr>model := OpenAI ''gpt-4o''\<rparr>])"
    by blast
  then have one: "POST ?c ?e ?q (Inr ?body) ?conv ?sys ?tools ?st1 =
      (Streamed ''stream'',
       [\<lparr>model = OpenAICompatible ''ollama'' ''http://localhost:11434/v1'' ''ollama'' ''llama3'',
         messages = ?msgs, system = ''coach'', stopWhen = 10, tools = ?tools\<rparr>,
        \<lparr>model = OpenAI ''gpt-4o'', messages = ?msgs, system = ''coach'', stopWhen = 10,
         tools = ?tools\<rparr>])"
    by (simp add: model POST_catch_def)
  from synchronous_throw_is_retried_once
    [where reqJson = "Inr ?body" and body = ?body and convertToModelMessages = ?conv
       and convertedMessages = ?msgs and first = ?first and c = ?c and e = ?e
       and query = ?q and systemPromptOf = ?sys and tools' = ?tools
       and streamText = ?st2 and err = ?err2, OF b1 b2 conv refl r2] shape2
  have "POST ?c ?e ?q (Inr ?body) ?conv ?sys ?tools ?st2 = (POST_catch ?err2, [?first])"
    by blast
  then have two: "POST ?c ?e ?q (Inr ?body) ?conv ?sys ?tools ?st2 =
      (JsonResponse 500 (JObj [(''error'', JStr ''Failed to process chat'')]),
       [\<lparr>model = OpenAICompatible ''ollama'' ''http://localhost:11434/v1'' ''ollama'' ''llama3'',
         messages = ?msgs, system = ''coach'', stopWhen = 10, tools = ?tools\<rparr>])"
    by (simp add: model POST_catch_def)
  from one two show ?thesis by (rule conjI)
qed

end
